theory Spec2Isabelle
  imports Main "HOL-Library.Word"
begin

section \<open>JavaScript values used by the Math block\<close>

text \<open>
  A JavaScript string is a sequence of 16-bit code units. String literals of the source
  are ASCII; \<open>lit\<close> turns such a literal into its code units.
\<close>

type_synonym jsstring = "16 word list"

definition lit :: "string \<Rightarrow> jsstring" where
  "lit s = map (\<lambda>c. of_nat (of_char c)) s"

text \<open>
  The \<open>text\<close> property of a \<open>MathData\<close> object, as the code can read it: a string, or
  \<open>undefined\<close> (the property is absent, as in \<open>{}\<close>) or \<open>null\<close>.
\<close>

datatype jsval = JUndefined | JNull | JStr jsstring

text \<open>Truthiness, and the operator \<open>a || b\<close>.\<close>

fun truthy :: "jsval \<Rightarrow> bool" where
  "truthy JUndefined = False"
| "truthy JNull = False"
| "truthy (JStr s) = (s \<noteq> [])"

definition js_or :: "jsval \<Rightarrow> jsval \<Rightarrow> jsval" where
  "js_or a b = (if truthy a then a else b)"

fun is_string :: "jsval \<Rightarrow> bool" where
  "is_string (JStr s) = True"
| "is_string JUndefined = False"
| "is_string JNull = False"

text \<open>
  The exceptions the modelled code can meet: a \<open>TypeError\<close> of the language (a method
  called on \<open>undefined\<close> or \<open>null\<close>), the two exceptions of \<open>classList.add\<close>, and whatever
  an external library throws.
\<close>

datatype exn = TypeError | SyntaxError | InvalidCharacterError | Thrown jsstring

record MathData =
  data_text :: jsval

subsection \<open>\<open>String.prototype.trim\<close>\<close>

text \<open>
  \<open>trim\<close> removes leading and trailing white space and line terminators (ECMAScript
  \<open>WhiteSpace\<close> and \<open>LineTerminator\<close>): TAB, LF, VT, FF, CR, SPACE, NBSP, U+1680,
  U+2000 to U+200A, U+2028, U+2029, U+202F, U+205F, U+3000 and U+FEFF.
\<close>

definition is_white_space :: "16 word \<Rightarrow> bool" where
  "is_white_space c =
     (c = 0x9 \<or> c = 0xA \<or> c = 0xB \<or> c = 0xC \<or> c = 0xD \<or> c = 0x20 \<or> c = 0xA0 \<or>
      c = 0x1680 \<or> (0x2000 \<le> c \<and> c \<le> 0x200A) \<or> c = 0x2028 \<or> c = 0x2029 \<or>
      c = 0x202F \<or> c = 0x205F \<or> c = 0x3000 \<or> c = 0xFEFF)"

definition trim :: "jsstring \<Rightarrow> jsstring" where
  "trim s = rev (dropWhile is_white_space (rev (dropWhile is_white_space s)))"

section \<open>\<open>validate\<close>\<close>

text \<open>
  \<^verbatim>\<open>validate(savedData) { if (savedData.text.trim() === '') { return false; } return true; }\<close>
  Calling \<open>trim\<close> on \<open>undefined\<close> or \<open>null\<close> raises a \<open>TypeError\<close>.
\<close>

definition validate :: "MathData \<Rightarrow> exn + bool" where
  "validate savedData =
     (case data_text savedData of
        JStr s \<Rightarrow> (if trim s = [] then Inr False else Inr True)
      | JUndefined \<Rightarrow> Inl TypeError
      | JNull \<Rightarrow> Inl TypeError)"

section \<open>The DOM, as far as the block reads and writes it\<close>

text \<open>
  A DOM tree: text nodes and elements with a qualified name (\<open>div\<close>, \<open>img\<close>, \<open>svg\<close>;
  lower case, as the HTML parser and \<open>createElement\<close> produce it), attributes and children.
  An \<open>element\<close> is an element the block holds a reference to: its name, attributes and
  children, and the event types that have a listener registered on it.
\<close>

datatype node = TextNode jsstring | ElementNode jsstring "(jsstring \<times> jsstring) list" "node list"

record element =
  localName :: jsstring
  attributes :: "(jsstring \<times> jsstring) list"
  childNodes :: "node list"
  listeners :: "jsstring list"

definition createElement :: "jsstring \<Rightarrow> element" where
  "createElement name = \<lparr>localName = name, attributes = [], childNodes = [], listeners = []\<rparr>"


fun set_attr :: "jsstring \<Rightarrow> jsstring \<Rightarrow> (jsstring \<times> jsstring) list \<Rightarrow> (jsstring \<times> jsstring) list" where
  "set_attr k v [] = [(k, v)]"
| "set_attr k v ((k', v') # as) =
     (if k' = k then (k, v) # as else (k', v') # set_attr k v as)"

definition setAttribute :: "jsstring \<Rightarrow> jsstring \<Rightarrow> element \<Rightarrow> element" where
  "setAttribute k v e = e\<lparr>attributes := set_attr k v (attributes e)\<rparr>"

definition addEventListener :: "jsstring \<Rightarrow> element \<Rightarrow> element" where
  "addEventListener type e = e\<lparr>listeners := listeners e @ [type]\<rparr>"

text \<open>\<open>textContent\<close>: the data of all text node descendants, in tree order.\<close>

fun node_text :: "node \<Rightarrow> jsstring" where
  "node_text (TextNode t) = t"
| "node_text (ElementNode n as cs) = concat (map node_text cs)"

definition textContent :: "element \<Rightarrow> jsstring" where
  "textContent e = concat (map node_text (childNodes e))"

text \<open>
  \<open>getElementsByTagName(name)\<close>: the element descendants with that qualified name, in tree
  order. \<open>elements_by_tag\<close> collects them in a subtree, its root included.
\<close>

fun elements_by_tag :: "jsstring \<Rightarrow> node \<Rightarrow> node list" where
  "elements_by_tag q (TextNode t) = []"
| "elements_by_tag q (ElementNode n as cs) =
     (if n = q then [ElementNode n as cs] else []) @ concat (map (elements_by_tag q) cs)"

definition getElementsByTagName :: "jsstring \<Rightarrow> element \<Rightarrow> node list" where
  "getElementsByTagName q e = concat (map (elements_by_tag q) (childNodes e))"

text \<open>
  What the block needs from the browser and cannot compute from the tree alone:
  \<^item> \<open>parse_fragment ctx markup\<close>: the children that assigning \<open>markup\<close> to \<open>innerHTML\<close> of an
    element named \<open>ctx\<close> produces (the HTML fragment parser);
  \<^item> \<open>serialize nodes\<close>: the markup that reading \<open>innerHTML\<close> returns for these children, and
    \<open>outerHTML\<close> for a single node (the HTML fragment serializer);
  \<^item> \<open>innerText e\<close>: the rendered text of an element, which depends on layout.
\<close>

record browser =
  parse_fragment :: "jsstring \<Rightarrow> jsstring \<Rightarrow> node list"
  serialize :: "node list \<Rightarrow> jsstring"
  innerText :: "element \<Rightarrow> jsstring"

definition get_innerHTML :: "browser \<Rightarrow> element \<Rightarrow> jsstring" where
  "get_innerHTML br e = serialize br (childNodes e)"

definition node_outerHTML :: "browser \<Rightarrow> node \<Rightarrow> jsstring" where
  "node_outerHTML br n = serialize br [n]"


definition set_innerHTML :: "browser \<Rightarrow> jsstring \<Rightarrow> element \<Rightarrow> element" where
  "set_innerHTML br markup e = e\<lparr>childNodes := parse_fragment br (localName e) markup\<rparr>"

text \<open>
  \<open>ToString\<close>, and the conversion of a value assigned to \<open>innerHTML\<close>, which is declared
  \<open>[LegacyNullToEmptyString] DOMString\<close>: \<open>null\<close> assigns the empty string, \<open>undefined\<close> the
  string \<open>undefined\<close>.
\<close>

fun ToString :: "jsval \<Rightarrow> jsstring" where
  "ToString (JStr s) = s"
| "ToString JNull = lit ''null''"
| "ToString JUndefined = lit ''undefined''"

fun innerHTML_string :: "jsval \<Rightarrow> jsstring" where
  "innerHTML_string JNull = []"
| "innerHTML_string v = ToString v"

section \<open>The external libraries\<close>

text \<open>
  \<open>window.math\<close> and \<open>window.MathJax\<close> are loaded by a script at start-up and may be absent
  (\<open>None\<close>). Of mathjs the block uses \<open>parse(text).toTex({parenthesis: 'keep'})\<close>, one call
  that returns TeX or throws; of MathJax, \<open>getMetricsFor\<close> and \<open>tex2svg\<close>, which return or
  throw.
\<close>

record 'm mathjax =
  getMetricsFor :: "element \<Rightarrow> bool \<Rightarrow> exn + 'm"
  tex2svg :: "jsstring \<Rightarrow> 'm \<Rightarrow> exn + element"

record 'm window =
  math :: "(jsval \<Rightarrow> exn + jsstring) option"
  MathJax :: "'m mathjax option"

section \<open>The Math block\<close>

text \<open>
  The fields of a \<open>Math\<close> instance; \<open>u_data\<close> stands for \<open>_data\<close>, and so on. \<open>console\<close> holds
  the messages the instance has written with \<open>console.error\<close>. The record \<open>_data\<close> is held by
  value: nothing proved here depends on the host keeping a reference to the object it passed
  in.
  A method that can let an exception escape returns \<open>exn + Math\<close>; the assignments it made
  before the exception are then not reported.
\<close>

record API =
  styles_block :: jsstring

record Config =
  placeholder :: jsval

record CSS =
  block :: jsstring
  wrapper :: jsstring

record Math =
  api :: API
  u_CSS :: CSS
  u_placeholder :: jsval
  u_data :: MathData
  u_element :: element
  mathNode :: "element option"
  console :: "jsstring list"

record PasteEvent =
  detail_data :: element

definition DEFAULT_PLACEHOLDER :: jsval where
  "DEFAULT_PLACEHOLDER = JStr []"

text \<open>\<^verbatim>\<open>get data() { return this._data; }\<close>\<close>

definition get_data :: "Math \<Rightarrow> MathData" where
  "get_data this = u_data this"

text \<open>
  \<^verbatim>\<open>set data(data) { this._data = data || {}; this._element.innerHTML = this._data.text || ''; }\<close>
  A missing argument (\<open>undefined\<close> or \<open>null\<close>) is \<open>None\<close>; \<open>{}\<close> is the record whose text is
  \<open>undefined\<close>.
\<close>

definition set_data :: "browser \<Rightarrow> MathData option \<Rightarrow> Math \<Rightarrow> Math" where
  "set_data br data this =
     (let this1 = this\<lparr>u_data := (case data of Some d \<Rightarrow> d | None \<Rightarrow> \<lparr>data_text = JUndefined\<rparr>)\<rparr>
      in this1\<lparr>u_element :=
           set_innerHTML br (innerHTML_string (js_or (data_text (u_data this1)) (JStr [])))
             (u_element this1)\<rparr>)"

text \<open>
  \<open>drawView\<close> reads \<open>this._CSS\<close> and \<open>this._placeholder\<close> and returns the new \<open>div\<close>.
  \<open>classList.add\<close> throws a \<open>SyntaxError\<close> for an empty token and an
  \<open>InvalidCharacterError\<close> for a token with ASCII white space, checking the tokens in order
  before it adds any; the class attribute is then the tokens, without repetition, joined by
  spaces (the \<open>div\<close> is new, so there are no earlier tokens).
\<close>

definition ascii_whitespace :: "16 word \<Rightarrow> bool" where
  "ascii_whitespace c = (c = 0x9 \<or> c = 0xA \<or> c = 0xC \<or> c = 0xD \<or> c = 0x20)"

fun check_tokens :: "jsstring list \<Rightarrow> exn option" where
  "check_tokens [] = None"
| "check_tokens (t # ts) =
     (if t = [] then Some SyntaxError
      else if list_ex ascii_whitespace t then Some InvalidCharacterError
      else check_tokens ts)"

fun join_tokens :: "jsstring list \<Rightarrow> jsstring" where
  "join_tokens [] = []"
| "join_tokens [t] = t"
| "join_tokens (t # ts) = t @ lit '' '' @ join_tokens ts"

definition classList_add :: "jsstring list \<Rightarrow> element \<Rightarrow> exn + element" where
  "classList_add tokens e =
     (case check_tokens tokens of
        Some err \<Rightarrow> Inl err
      | None \<Rightarrow> Inr (setAttribute (lit ''class'') (join_tokens (rev (remdups (rev tokens)))) e))"

definition drawView :: "CSS \<Rightarrow> jsval \<Rightarrow> exn + element" where
  "drawView css ph =
     (case classList_add [wrapper css, block css] (createElement (lit ''div'')) of
        Inl err \<Rightarrow> Inl err
      | Inr view \<Rightarrow>
          Inr (addEventListener (lit ''keyup'')
                (setAttribute (lit ''data-placeholder'') (ToString ph)
                  (setAttribute (lit ''contenteditable'') (lit ''true'') view))))"

text \<open>
  The constructor, with the \<open>data\<close>, \<open>config\<close> and \<open>api\<close> of its argument. \<open>_data\<close> is \<open>{}\<close>
  and \<open>mathNode\<close> is unset until the setter and the first render assign them.
\<close>

definition constructor :: "browser \<Rightarrow> MathData option \<Rightarrow> Config \<Rightarrow> API \<Rightarrow> exn + Math" where
  "constructor br data config a =
     (let css = \<lparr>block = styles_block a, wrapper = lit ''ce-Math''\<rparr>;
          ph = (if truthy (placeholder config) then placeholder config else DEFAULT_PLACEHOLDER)
      in case drawView css ph of
           Inl err \<Rightarrow> Inl err
         | Inr view \<Rightarrow>
             Inr (set_data br data
                   \<lparr>api = a, u_CSS = css, u_placeholder = ph,
                    u_data = \<lparr>data_text = JUndefined\<rparr>, u_element = view,
                    mathNode = None, console = []\<rparr>))"

text \<open>\<^verbatim>\<open>ifSVGRendered() { ... return this._element.getElementsByTagName('svg').length > 0; }\<close>\<close>

definition ifSVGRendered :: "Math \<Rightarrow> bool" where
  "ifSVGRendered this = (length (getElementsByTagName (lit ''svg'') (u_element this)) > 0)"

text \<open>
  \<open>onKeyUp\<close>, with the \<open>code\<close> of the key event. The template string makes the strings
  \<open>true\<close> and \<open>false\<close>.
\<close>

definition onKeyUp :: "browser \<Rightarrow> jsstring \<Rightarrow> Math \<Rightarrow> Math" where
  "onKeyUp br code this =
     (let this1 = this\<lparr>u_element :=
                    setAttribute (lit ''contenteditable'')
                      (if \<not> ifSVGRendered this then lit ''true'' else lit ''false'')
                      (u_element this)\<rparr>
      in if code \<noteq> lit ''Backspace'' \<and> code \<noteq> lit ''Delete'' then this1
         else if textContent (u_element this1) = []
           then this1\<lparr>u_element := set_innerHTML br [] (u_element this1)\<rparr>
           else this1)"


text \<open>
  \<open>getTexSyntax(mathNode)\<close>. The argument is the object \<open>this.mathNode\<close>, which the method
  changes; the model returns the changed node together with the instance, and the caller
  stores it back. Without \<open>window.math\<close> the method logs and returns; an exception of the
  parser is caught and the text itself assigned.
\<close>

definition getTexSyntax :: "browser \<Rightarrow> 'm window \<Rightarrow> element \<Rightarrow> Math \<Rightarrow> element \<times> Math" where
  "getTexSyntax br w mn this =
     (case math w of
        None \<Rightarrow> (mn, this\<lparr>console := console this @ [lit ''not initiated mathjs'']\<rparr>)
      | Some parse_toTex \<Rightarrow>
          (case parse_toTex (data_text (get_data this)) of
             Inr tex \<Rightarrow> (set_innerHTML br tex mn, this)
           | Inl e \<Rightarrow> (set_innerHTML br (innerHTML_string (data_text (get_data this))) mn, this)))"

text \<open>
  \<open>textToSVG(mathNode)\<close>. Without \<open>window.MathJax\<close> the method logs and returns. Otherwise
  the first \<open>svg\<close> element of the typeset result, if there is one, gives the new content of
  the container; if there is none, the container's own \<open>innerHTML\<close> is assigned to it.
\<close>

definition textToSVG :: "browser \<Rightarrow> 'm window \<Rightarrow> element \<Rightarrow> Math \<Rightarrow> exn + Math" where
  "textToSVG br w mn this =
     (case MathJax w of
        None \<Rightarrow> Inr (this\<lparr>console := console this @ [lit ''not initiated mathJax'']\<rparr>)
      | Some mj \<Rightarrow>
          (case getMetricsFor mj mn True of
             Inl e \<Rightarrow> Inl e
           | Inr options \<Rightarrow>
               (case tex2svg mj (innerText br mn) options of
                  Inl e \<Rightarrow> Inl e
                | Inr texNode \<Rightarrow>
                    Inr (this\<lparr>u_element :=
                          set_innerHTML br
                            (case getElementsByTagName (lit ''svg'') texNode of
                               svgNode # rest \<Rightarrow> node_outerHTML br svgNode
                             | [] \<Rightarrow> get_innerHTML br (u_element this))
                            (u_element this)\<rparr>))))"

text \<open>
  \<open>renderSVG\<close>: the text becomes the container's \<open>innerText\<close> unless that is empty;
  \<open>mathNode\<close> is created on the first pass and kept. The node \<open>getTexSyntax\<close> has changed
  is the one \<open>this.mathNode\<close> refers to, so it is stored back before \<open>textToSVG\<close> runs.
\<close>

definition renderSVG :: "browser \<Rightarrow> 'm window \<Rightarrow> Math \<Rightarrow> exn + Math" where
  "renderSVG br w this =
     (let this1 = this\<lparr>u_data := (u_data this)\<lparr>data_text :=
                    js_or (JStr (innerText br (u_element this))) (data_text (get_data this))\<rparr>\<rparr>;
          node = (case mathNode this1 of Some n \<Rightarrow> n | None \<Rightarrow> createElement (lit ''img''));
          this2 = this1\<lparr>mathNode := Some node\<rparr>;
          (mn, this3) = getTexSyntax br w node this2;
          this4 = this3\<lparr>mathNode := Some mn\<rparr>
      in textToSVG br w mn this4)"

text \<open>\<open>render\<close>: a render pass, then the \<open>dblclick\<close> listener; the result holds \<open>_element\<close>.\<close>

definition render :: "browser \<Rightarrow> 'm window \<Rightarrow> Math \<Rightarrow> exn + Math" where
  "render br w this =
     (case renderSVG br w this of
        Inl e \<Rightarrow> Inl e
      | Inr this1 \<Rightarrow> Inr (this1\<lparr>u_element := addEventListener (lit ''dblclick'') (u_element this1)\<rparr>))"


text \<open>\<^verbatim>\<open>merge(data) { this.data = this.data; }\<close>\<close>

definition merge :: "browser \<Rightarrow> MathData \<Rightarrow> Math \<Rightarrow> Math" where
  "merge br data this = set_data br (Some (get_data this)) this"

text \<open>\<^verbatim>\<open>save(toolsContent) { return { text: this.data.text }; }\<close>\<close>

definition save :: "element \<Rightarrow> Math \<Rightarrow> MathData" where
  "save toolsContent this = \<lparr>data_text = data_text (get_data this)\<rparr>"

text \<open>
  \<^verbatim>\<open>onPaste(event) { const data = { text: event.detail.data.innerHTML }; this.data = data; }\<close>
\<close>

definition onPaste :: "browser \<Rightarrow> PasteEvent \<Rightarrow> Math \<Rightarrow> Math" where
  "onPaste br event this =
     set_data br (Some \<lparr>data_text = JStr (get_innerHTML br (detail_data event))\<rparr>) this"

section \<open>Observations used in the statements\<close>

text \<open>
  The text a render pass works on (the first statement of \<open>renderSVG\<close>), the node it hands
  to the two steps (the second), and the node and instance as \<open>textToSVG\<close> receives them.
\<close>

definition render_text :: "browser \<Rightarrow> Math \<Rightarrow> jsval" where
  "render_text br this = js_or (JStr (innerText br (u_element this))) (data_text (u_data this))"

definition render_node :: "Math \<Rightarrow> element" where
  "render_node this = (case mathNode this of Some n \<Rightarrow> n | None \<Rightarrow> createElement (lit ''img''))"

definition before_typesetting :: "browser \<Rightarrow> 'm window \<Rightarrow> Math \<Rightarrow> element \<times> Math" where
  "before_typesetting br w this =
     (let (mn, this3) =
            getTexSyntax br w (render_node this)
              (this\<lparr>u_data := (u_data this)\<lparr>data_text := render_text br this\<rparr>,
                    mathNode := Some (render_node this)\<rparr>)
      in (mn, this3\<lparr>mathNode := Some mn\<rparr>))"

text \<open>
  The typesetter produces no graphic for the node \<open>mn\<close>: its handle is absent, or both its
  calls return and the result holds no \<open>svg\<close> element.
\<close>

definition no_graphic :: "browser \<Rightarrow> 'm window \<Rightarrow> element \<Rightarrow> bool" where
  "no_graphic br w mn =
     (case MathJax w of
        None \<Rightarrow> True
      | Some mj \<Rightarrow>
          (case getMetricsFor mj mn True of
             Inl e \<Rightarrow> False
           | Inr options \<Rightarrow>
               (case tex2svg mj (innerText br mn) options of
                  Inl e \<Rightarrow> False
                | Inr texNode \<Rightarrow> getElementsByTagName (lit ''svg'') texNode = [])))"

text \<open>
  The calls of the typesetter return for the node \<open>mn\<close>: its handle is absent, or neither
  \<open>getMetricsFor\<close> nor \<open>tex2svg\<close> throws.
\<close>

definition typesetter_returns :: "browser \<Rightarrow> 'm window \<Rightarrow> element \<Rightarrow> bool" where
  "typesetter_returns br w mn =
     (case MathJax w of
        None \<Rightarrow> True
      | Some mj \<Rightarrow>
          (case getMetricsFor mj mn True of
             Inl e \<Rightarrow> False
           | Inr options \<Rightarrow>
               (case tex2svg mj (innerText br mn) options of
                  Inl e \<Rightarrow> False
                | Inr texNode \<Rightarrow> True)))"




text \<open>The text the setter displays: the stored text, or the empty string if there is none.\<close>

fun text_or_empty :: "jsval \<Rightarrow> jsstring" where
  "text_or_empty (JStr s) = s"
| "text_or_empty JUndefined = []"
| "text_or_empty JNull = []"

section \<open>A browser and libraries for the examples\<close>

text \<open>
  The serializer follows the HTML fragment serialization of text and of elements that have
  an end tag. The parser reads everything after a \<open>plaintext\<close> start tag as text, an end
  tag included; otherwise it is the inverse of the serializer on the documents the examples
  display, and markup outside them is taken as plain text. An element outside a document
  has no layout, and its \<open>innerText\<close> is its \<open>textContent\<close>.
\<close>

fun escape_text :: "jsstring \<Rightarrow> jsstring" where
  "escape_text [] = []"
| "escape_text (c # cs) =
     (if c = 0x26 then lit ''&amp;''
      else if c = 0xA0 then lit ''&nbsp;''
      else if c = 0x3C then lit ''&lt;''
      else if c = 0x3E then lit ''&gt;''
      else [c]) @ escape_text cs"

fun escape_attr :: "jsstring \<Rightarrow> jsstring" where
  "escape_attr [] = []"
| "escape_attr (c # cs) =
     (if c = 0x26 then lit ''&amp;''
      else if c = 0xA0 then lit ''&nbsp;''
      else if c = 0x22 then lit ''&quot;''
      else [c]) @ escape_attr cs"

fun demo_serialize_node :: "node \<Rightarrow> jsstring" where
  "demo_serialize_node (TextNode t) = escape_text t"
| "demo_serialize_node (ElementNode n as cs) =
     lit ''<'' @ n @
     concat (map (\<lambda>(k, v). lit '' '' @ k @ lit ''='' @ [0x22] @ escape_attr v @ [0x22]) as) @
     lit ''>'' @ concat (map demo_serialize_node cs) @ lit ''</'' @ n @ lit ''>''"

definition demo_serialize :: "node list \<Rightarrow> jsstring" where
  "demo_serialize ns = concat (map demo_serialize_node ns)"

definition demo_documents :: "node list list" where
  "demo_documents =
     [[],
      [TextNode (lit ''x^2'')],
      [TextNode (lit ''2+2'')],
      [TextNode (lit ''2+'')],
      [ElementNode (lit ''svg'') [] []],
      [ElementNode (lit ''b'') [] [TextNode (lit ''3'')]],
      [ElementNode (lit ''div'') [(lit ''contenteditable'', lit ''true'')] [TextNode (lit ''x^2'')]],
      [ElementNode (lit ''div'') [(lit ''contenteditable'', lit ''true'')]
         [ElementNode (lit ''svg'') [] []]]]"

definition demo_plaintext :: "(jsstring \<times> node list) list" where
  "demo_plaintext =
     [(lit ''<plaintext>abc'',
       [ElementNode (lit ''plaintext'') [] [TextNode (lit ''abc'')]]),
      (lit ''<plaintext>abc</plaintext>'',
       [ElementNode (lit ''plaintext'') [] [TextNode (lit ''abc</plaintext>'')]])]"

definition demo_parse :: "jsstring \<Rightarrow> jsstring \<Rightarrow> node list" where
  "demo_parse ctx markup =
     (case map_of demo_plaintext markup of
        Some ns \<Rightarrow> ns
      | None \<Rightarrow>
          (case find (\<lambda>ns. demo_serialize ns = markup) demo_documents of
             Some ns \<Rightarrow> ns
           | None \<Rightarrow> [TextNode markup]))"

definition demo_browser :: browser where
  "demo_browser = \<lparr>parse_fragment = demo_parse, serialize = demo_serialize, innerText = textContent\<rparr>"

text \<open>
  A typesetter that returns, for any input, a container element with one \<open>svg\<close> element, and
  one whose result holds no \<open>svg\<close> element; a parser that accepts \<open>x^2\<close> and rejects every
  other input; the host's \<open>api\<close> and \<open>config\<close>; and the instance as the constructor has it
  for them just before it assigns \<open>data\<close>.
\<close>

definition demo_mathjax :: "unit mathjax" where
  "demo_mathjax =
     \<lparr>getMetricsFor = (\<lambda>mn b. Inr ()),
      tex2svg = (\<lambda>tex options. Inr \<lparr>localName = lit ''mjx-container'', attributes = [],
                   childNodes = [ElementNode (lit ''svg'') [] []], listeners = []\<rparr>)\<rparr>"

definition blank_mathjax :: "unit mathjax" where
  "blank_mathjax =
     \<lparr>getMetricsFor = (\<lambda>mn b. Inr ()),
      tex2svg = (\<lambda>tex options. Inr \<lparr>localName = lit ''mjx-container'', attributes = [],
                   childNodes = [], listeners = []\<rparr>)\<rparr>"

definition demo_parser :: "jsval \<Rightarrow> exn + jsstring" where
  "demo_parser t =
     (if t = JStr (lit ''x^2'') then Inr (lit ''x^{2}'') else Inl (Thrown (lit ''SyntaxError'')))"

definition demo_window :: "unit window" where
  "demo_window = \<lparr>math = Some demo_parser, MathJax = Some demo_mathjax\<rparr>"

definition window_without_parser :: "unit window" where
  "window_without_parser = \<lparr>math = None, MathJax = Some demo_mathjax\<rparr>"

definition window_without_libraries :: "unit window" where
  "window_without_libraries = \<lparr>math = None, MathJax = None\<rparr>"

definition window_without_graphic :: "unit window" where
  "window_without_graphic = \<lparr>math = None, MathJax = Some blank_mathjax\<rparr>"

definition window_blank_typesetter :: "unit window" where
  "window_blank_typesetter = \<lparr>math = Some demo_parser, MathJax = Some blank_mathjax\<rparr>"

definition demo_api :: API where
  "demo_api = \<lparr>styles_block = lit ''cdx-block''\<rparr>"

definition demo_config :: Config where
  "demo_config = \<lparr>placeholder = JUndefined\<rparr>"

definition demo_view :: element where
  "demo_view =
     \<lparr>localName = lit ''div'',
      attributes = [(lit ''class'', lit ''ce-Math cdx-block''),
                    (lit ''contenteditable'', lit ''true''),
                    (lit ''data-placeholder'', [])],
      childNodes = [],
      listeners = [lit ''keyup'']\<rparr>"

definition demo_block :: Math where
  "demo_block =
     \<lparr>api = demo_api,
      u_CSS = \<lparr>block = lit ''cdx-block'', wrapper = lit ''ce-Math''\<rparr>,
      u_placeholder = JStr [],
      u_data = \<lparr>data_text = JUndefined\<rparr>,
      u_element = demo_view,
      mathNode = None,
      console = []\<rparr>"

text \<open>
  A block with text \<open>x^2\<close> whose container displays a graphic, and a pasted paragraph with
  inner markup \<open><b>3</b>\<close>.
\<close>

definition rendered_block :: Math where
  "rendered_block =
     demo_block\<lparr>u_data := \<lparr>data_text = JStr (lit ''x^2'')\<rparr>,
       u_element := demo_view\<lparr>childNodes := [ElementNode (lit ''svg'') [] []]\<rparr>\<rparr>"

definition pasted_paragraph :: element where
  "pasted_paragraph =
     \<lparr>localName = lit ''p'', attributes = [],
      childNodes = [ElementNode (lit ''b'') [] [TextNode (lit ''3'')]], listeners = []\<rparr>"

text \<open>The blocks constructed with data \<open>{text: "x^2"}\<close> and \<open>{text: "2+"}\<close>.\<close>

definition block_x2 :: Math where
  "block_x2 = set_data demo_browser (Some \<lparr>data_text = JStr (lit ''x^2'')\<rparr>) demo_block"

definition block_2plus :: Math where
  "block_2plus = set_data demo_browser (Some \<lparr>data_text = JStr (lit ''2+'')\<rparr>) demo_block"

text \<open>
  The block constructed without data; the blocks constructed with the texts
  \<open><svg></svg>\<close> and \<open><plaintext>abc\<close>; and the block with text \<open>x^2\<close> after the user has
  typed it into the container in two pieces, which are two adjacent text nodes.
\<close>

definition block_without_data :: Math where
  "block_without_data = set_data demo_browser None demo_block"


definition block_plaintext :: Math where
  "block_plaintext =
     set_data demo_browser (Some \<lparr>data_text = JStr (lit ''<plaintext>abc'')\<rparr>) demo_block"

definition typed_block :: Math where
  "typed_block =
     demo_block\<lparr>u_data := \<lparr>data_text = JStr (lit ''x^2'')\<rparr>,
       u_element := demo_view\<lparr>childNodes := [TextNode (lit ''x^''), TextNode (lit ''2'')]\<rparr>\<rparr>"

section \<open>Properties of \<open>validate\<close>\<close>

lemma trim_empty_iff: "trim s = [] \<longleftrightarrow> list_all is_white_space s"
proof -
  let ?rest = "dropWhile is_white_space s"
  have "trim s = [] \<longleftrightarrow> (\<forall>c \<in> set ?rest. is_white_space c)"
    by (simp add: trim_def)
  also have "\<dots> \<longleftrightarrow> ?rest = []"
  proof
    assume all: "\<forall>c \<in> set ?rest. is_white_space c"
    show "?rest = []"
    proof (rule ccontr)
      assume ne: "?rest \<noteq> []"
      then have "\<not> is_white_space (hd ?rest)" by (rule hd_dropWhile)
      moreover from ne have "hd ?rest \<in> set ?rest" by (rule hd_in_set)
      ultimately show False using all by blast
    qed
  next
    assume empty: "?rest = []"
    show "\<forall>c \<in> set ?rest. is_white_space c" unfolding empty by simp
  qed
  also have "\<dots> \<longleftrightarrow> list_all is_white_space s"
    by (simp add: list_all_iff)
  finally show ?thesis .
qed

text \<open>
  Claim C1. For a saved record whose text is a string \<open>s\<close>, \<open>validate\<close> returns (without
  raising) \<open>false\<close> exactly when the trimmed text is the empty string, which is exactly
  when every code unit of \<open>s\<close> is white space; so it returns \<open>true\<close> for every string that
  is not all white space, and \<open>false\<close> for the empty and the white-space-only strings.
\<close>

theorem validate_false_iff_trimmed_empty:
  "(validate \<lparr>data_text = JStr s\<rparr> = Inr False \<longleftrightarrow> trim s = []) \<and>
   validate \<lparr>data_text = JStr s\<rparr> = Inr (\<not> list_all is_white_space s)"
  by (simp add: validate_def trim_empty_iff)

section \<open>Auxiliary facts\<close>

lemmas demo_defs = demo_browser_def demo_parse_def demo_plaintext_def demo_documents_def
  demo_serialize_def
  demo_api_def demo_config_def demo_view_def demo_block_def

lemma constructor_demo:
  "constructor demo_browser data demo_config demo_api = Inr (set_data demo_browser data demo_block)"
  by (simp add: constructor_def drawView_def classList_add_def createElement_def setAttribute_def
      addEventListener_def DEFAULT_PLACEHOLDER_def ascii_whitespace_def lit_def
      demo_api_def demo_config_def demo_view_def demo_block_def)

lemma text_or_empty_eq: "innerHTML_string (js_or v (JStr [])) = text_or_empty v"
  by (cases v) (simp_all add: js_or_def)

lemma set_data_u_data:
  "u_data (set_data br data this) = (case data of Some d \<Rightarrow> d | None \<Rightarrow> \<lparr>data_text = JUndefined\<rparr>)"
  by (simp add: set_data_def Let_def)

lemma set_data_u_element:
  "u_element (set_data br data this) =
     (u_element this)\<lparr>childNodes := parse_fragment br (localName (u_element this))
        (text_or_empty (data_text (case data of Some d \<Rightarrow> d | None \<Rightarrow> \<lparr>data_text = JUndefined\<rparr>)))\<rparr>"
  by (simp add: set_data_def Let_def set_innerHTML_def text_or_empty_eq)

lemma set_data_other:
  "mathNode (set_data br data this) = mathNode this"
  "console (set_data br data this) = console this"
  by (simp_all add: set_data_def Let_def)



lemma renderSVG_eq:
  "renderSVG br w this =
     textToSVG br w (fst (before_typesetting br w this)) (snd (before_typesetting br w this))"
  by (simp add: renderSVG_def before_typesetting_def render_text_def render_node_def get_data_def
      Let_def split: prod.split)

lemma before_typesetting_frame:
  "u_element (snd (before_typesetting br w this)) = u_element this"
  "mathNode (snd (before_typesetting br w this)) = Some (fst (before_typesetting br w this))"
  "data_text (u_data (snd (before_typesetting br w this))) = render_text br this"
  by (simp_all add: before_typesetting_def getTexSyntax_def Let_def
      split: prod.split option.split sum.split)

lemma before_typesetting_without_parser:
  assumes "math w = None"
  shows "fst (before_typesetting br w this) = render_node this"
    and "console (snd (before_typesetting br w this)) = console this @ [lit ''not initiated mathjs'']"
  using assms by (simp_all add: before_typesetting_def getTexSyntax_def)

lemma textToSVG_without_typesetter:
  assumes "MathJax w = None"
  shows "textToSVG br w mn this = Inr (this\<lparr>console := console this @ [lit ''not initiated mathJax'']\<rparr>)"
  using assms by (simp add: textToSVG_def)

lemma textToSVG_without_svg:
  assumes "no_graphic br w mn" and "MathJax w \<noteq> None"
  shows "textToSVG br w mn this =
           Inr (this\<lparr>u_element := (u_element this)\<lparr>childNodes :=
                  parse_fragment br (localName (u_element this))
                    (serialize br (childNodes (u_element this)))\<rparr>\<rparr>)"
  using assms
  by (auto simp: no_graphic_def textToSVG_def set_innerHTML_def get_innerHTML_def
      split: option.splits sum.splits list.splits)

section \<open>The data setter, \<open>save\<close>, \<open>merge\<close> and \<open>onPaste\<close>\<close>

text \<open>
  Claim C2. After an assignment through the data setter the stored text is to be a string,
  the empty string when the data is missing or has no text. The code does not keep to
  this: the setter normalizes only what it writes to the container. For a block
  constructed without data, or with \<open>{}\<close>, the container is empty, but the stored text is
  \<open>undefined\<close>; \<open>save\<close> returns it, and \<open>validate\<close> raises a \<open>TypeError\<close> on the saved
  record where it would return \<open>false\<close> for the empty string.
\<close>

theorem constructor_without_data_leaves_text_undefined:
  "constructor demo_browser None demo_config demo_api = Inr block_without_data \<and>
   constructor demo_browser (Some \<lparr>data_text = JUndefined\<rparr>) demo_config demo_api =
     Inr block_without_data \<and>
   childNodes (u_element block_without_data) = [] \<and>
   data_text (u_data block_without_data) = JUndefined \<and>
   \<not> is_string (data_text (u_data block_without_data)) \<and>
   save demo_view block_without_data = \<lparr>data_text = JUndefined\<rparr> \<and>
   validate (save demo_view block_without_data) = Inl TypeError \<and>
   validate \<lparr>data_text = JStr []\<rparr> = Inr False"
proof -
  have same: "set_data demo_browser (Some \<lparr>data_text = JUndefined\<rparr>) demo_block = block_without_data"
    by (simp add: block_without_data_def set_data_def)
  have shown: "childNodes (u_element block_without_data) = []"
    by (simp add: block_without_data_def set_data_u_element demo_defs lit_def)
  have saved: "save demo_view block_without_data = \<lparr>data_text = JUndefined\<rparr>"
    by (simp add: block_without_data_def set_data_u_data save_def get_data_def)
  have empty: "validate \<lparr>data_text = JStr []\<rparr> = Inr False"
    by (simp add: validate_def trim_def)
  from shown saved empty show ?thesis
    by (simp add: constructor_demo same)
       (simp add: block_without_data_def set_data_u_data validate_def)
qed

text \<open>
  Claim C4. After the record is set to \<open>{text: s}\<close> through the setter, \<open>save\<close> returns
  \<open>{text: s}\<close>; the constructor, given a class name that \<open>classList.add\<close> accepts, returns a
  block for which \<open>save\<close> returns \<open>{text: s}\<close>; and \<open>save\<close> depends neither on the container
  nor on its argument.
\<close>

theorem save_returns_assigned_text:
  "save content (set_data br (Some \<lparr>data_text = JStr s\<rparr>) this) = \<lparr>data_text = JStr s\<rparr> \<and>
   (styles_block a \<noteq> [] \<and> \<not> list_ex ascii_whitespace (styles_block a) \<longrightarrow>
      (\<exists>this'. constructor br (Some \<lparr>data_text = JStr s\<rparr>) config a = Inr this' \<and>
         save content this' = \<lparr>data_text = JStr s\<rparr>)) \<and>
   save content (this\<lparr>u_element := e\<rparr>) = save content this \<and>
   save content this = save content' this"
  by (auto simp: save_def get_data_def set_data_u_data constructor_def drawView_def
      classList_add_def ascii_whitespace_def lit_def Let_def)

theorem save_returns_assigned_text_witness:
  "styles_block demo_api \<noteq> [] \<and> \<not> list_ex ascii_whitespace (styles_block demo_api) \<and>
   constructor demo_browser (Some \<lparr>data_text = JStr (lit ''2+2'')\<rparr>) demo_config demo_api =
     Inr (set_data demo_browser (Some \<lparr>data_text = JStr (lit ''2+2'')\<rparr>) demo_block) \<and>
   save demo_view (set_data demo_browser (Some \<lparr>data_text = JStr (lit ''2+2'')\<rparr>) demo_block) =
     \<lparr>data_text = JStr (lit ''2+2'')\<rparr>"
  using save_returns_assigned_text [of demo_view demo_browser "lit ''2+2''" demo_block demo_api
      demo_config demo_view demo_view]
  by (simp add: constructor_demo) (simp add: demo_api_def ascii_whitespace_def lit_def)

text \<open>
  Claim C5. \<open>merge\<close> leaves the stored record as it was, whatever the incoming record is:
  the incoming data has no influence on the result.
\<close>

theorem merge_keeps_record:
  "u_data (merge br incoming this) = u_data this \<and>
   get_data (merge br incoming this) = get_data this \<and>
   merge br incoming this = merge br incoming' this"
  by (simp add: merge_def get_data_def set_data_u_data)

text \<open>
  Claim C10. \<open>merge\<close> is the data setter applied to the stored record, so it rewrites the
  content of the container: afterwards the container holds what the browser parses from
  the stored text, or from the empty string when the text is unset.
\<close>

theorem merge_rewrites_container:
  "merge br incoming this = set_data br (Some (get_data this)) this \<and>
   childNodes (u_element (merge br incoming this)) =
     parse_fragment br (localName (u_element this)) (text_or_empty (data_text (u_data this)))"
  by (simp add: merge_def get_data_def set_data_u_element)

text \<open>
  An instance of it: a block with text \<open>x^2\<close> whose container displays a graphic shows the
  text again after \<open>merge\<close>, and no graphic.
\<close>

theorem merge_rewrites_container_witness:
  "ifSVGRendered rendered_block \<and>
   childNodes (u_element (merge demo_browser \<lparr>data_text = JStr (lit ''2+2'')\<rparr> rendered_block)) =
     [TextNode (lit ''x^2'')] \<and>
   \<not> ifSVGRendered (merge demo_browser \<lparr>data_text = JStr (lit ''2+2'')\<rparr> rendered_block)"
  using merge_rewrites_container [of demo_browser "\<lparr>data_text = JStr (lit ''2+2'')\<rparr>" rendered_block]
  by (simp add: merge_def get_data_def set_data_u_element ifSVGRendered_def
      getElementsByTagName_def rendered_block_def demo_defs lit_def)

text \<open>
  Claim C7. \<open>onPaste\<close> stores the record \<open>{text: m}\<close>, where \<open>m\<close> is the \<open>innerHTML\<close> of the
  pasted element, and makes the container hold what the browser parses from \<open>m\<close>; neither
  depends on the record stored or the content displayed before.
\<close>

theorem onPaste_replaces_record:
  "u_data (onPaste br event this) = \<lparr>data_text = JStr (get_innerHTML br (detail_data event))\<rparr> \<and>
   childNodes (u_element (onPaste br event this)) =
     parse_fragment br (localName (u_element this)) (get_innerHTML br (detail_data event)) \<and>
   onPaste br event (this\<lparr>u_data := d, u_element := (u_element this)\<lparr>childNodes := cs\<rparr>\<rparr>) =
     onPaste br event this"
  by (simp add: onPaste_def set_data_u_data set_data_u_element)
     (simp add: set_data_def Let_def set_innerHTML_def)

text \<open>An instance of it: pasting an element with inner markup \<open><b>3</b>\<close>.\<close>

theorem onPaste_replaces_record_witness:
  "get_innerHTML demo_browser pasted_paragraph = lit ''<b>3</b>'' \<and>
   u_data (onPaste demo_browser \<lparr>detail_data = pasted_paragraph\<rparr>
     (set_data demo_browser (Some \<lparr>data_text = JStr (lit ''x^2'')\<rparr>) demo_block)) =
     \<lparr>data_text = JStr (lit ''<b>3</b>'')\<rparr> \<and>
   childNodes (u_element (onPaste demo_browser \<lparr>detail_data = pasted_paragraph\<rparr>
     (set_data demo_browser (Some \<lparr>data_text = JStr (lit ''x^2'')\<rparr>) demo_block))) =
     [ElementNode (lit ''b'') [] [TextNode (lit ''3'')]]"
  using onPaste_replaces_record [of demo_browser "\<lparr>detail_data = pasted_paragraph\<rparr>"
      "set_data demo_browser (Some \<lparr>data_text = JStr (lit ''x^2'')\<rparr>) demo_block"]
  by (simp add: onPaste_def set_data_u_data set_data_u_element get_innerHTML_def
      pasted_paragraph_def demo_defs lit_def)

section \<open>The toggle and the render pass\<close>




text \<open>
  Claim C9. In a render pass whose typesetter produces no graphic, the container is to
  keep its content and no exception is to leave the pass. Without \<open>window.MathJax\<close> the
  code returns before it touches the container. With a typeset result that holds no
  \<open>svg\<close> element no exception leaves the pass either, but the code assigns the container's
  own \<open>innerHTML\<close> to it, and the browser builds the content anew from that markup, which
  is not always the content it had. The block constructed with the text
  \<open><plaintext>abc\<close> displays \<open>abc\<close>; after the pass it displays \<open>abc</plaintext>\<close>, since
  a \<open>plaintext\<close> element takes its own end tag as text. The two pieces of text the user
  typed are one text node after the pass.
\<close>

theorem renderSVG_without_svg_rebuilds_content:
  "renderSVG demo_browser window_without_libraries block_plaintext =
     Inr (block_plaintext\<lparr>u_data := \<lparr>data_text = JStr (lit ''abc'')\<rparr>,
            mathNode := Some (createElement (lit ''img'')),
            console := [lit ''not initiated mathjs'', lit ''not initiated mathJax'']\<rparr>) \<and>
   no_graphic demo_browser window_blank_typesetter
     (fst (before_typesetting demo_browser window_blank_typesetter block_plaintext)) \<and>
   u_element block_plaintext =
     demo_view\<lparr>childNodes := [ElementNode (lit ''plaintext'') [] [TextNode (lit ''abc'')]]\<rparr> \<and>
   textContent (u_element block_plaintext) = lit ''abc'' \<and>
   renderSVG demo_browser window_blank_typesetter block_plaintext =
     Inr (block_plaintext\<lparr>u_data := \<lparr>data_text = JStr (lit ''abc'')\<rparr>,
            u_element := demo_view\<lparr>childNodes :=
              [ElementNode (lit ''plaintext'') [] [TextNode (lit ''abc</plaintext>'')]]\<rparr>,
            mathNode := Some ((createElement (lit ''img''))\<lparr>childNodes := [TextNode (lit ''abc'')]\<rparr>)\<rparr>) \<and>
   textContent (demo_view\<lparr>childNodes :=
     [ElementNode (lit ''plaintext'') [] [TextNode (lit ''abc</plaintext>'')]]\<rparr>) =
     lit ''abc</plaintext>'' \<and>
   no_graphic demo_browser window_blank_typesetter
     (fst (before_typesetting demo_browser window_blank_typesetter typed_block)) \<and>
   childNodes (u_element typed_block) = [TextNode (lit ''x^''), TextNode (lit ''2'')] \<and>
   renderSVG demo_browser window_blank_typesetter typed_block =
     Inr (typed_block\<lparr>u_element := demo_view\<lparr>childNodes := [TextNode (lit ''x^2'')]\<rparr>,
            mathNode := Some ((createElement (lit ''img''))\<lparr>childNodes := [TextNode (lit ''x^{2}'')]\<rparr>)\<rparr>)"
proof -
  note pass = renderSVG_def getTexSyntax_def textToSVG_def getElementsByTagName_def get_data_def
    js_or_def set_innerHTML_def get_innerHTML_def node_outerHTML_def textContent_def
    createElement_def Let_def
  have blank: "no_graphic demo_browser window_blank_typesetter mn" for mn
    by (simp add: no_graphic_def window_blank_typesetter_def blank_mathjax_def
        getElementsByTagName_def)
  have view: "u_element block_plaintext =
      demo_view\<lparr>childNodes := [ElementNode (lit ''plaintext'') [] [TextNode (lit ''abc'')]]\<rparr>"
    by (simp add: block_plaintext_def set_data_u_element demo_defs lit_def)
  have absent: "renderSVG demo_browser window_without_libraries block_plaintext =
      Inr (block_plaintext\<lparr>u_data := \<lparr>data_text = JStr (lit ''abc'')\<rparr>,
             mathNode := Some (createElement (lit ''img'')),
             console := [lit ''not initiated mathjs'', lit ''not initiated mathJax'']\<rparr>)"
    by (simp add: pass block_plaintext_def set_data_def window_without_libraries_def
        demo_defs lit_def)
  have rebuilt: "renderSVG demo_browser window_blank_typesetter block_plaintext =
      Inr (block_plaintext\<lparr>u_data := \<lparr>data_text = JStr (lit ''abc'')\<rparr>,
             u_element := demo_view\<lparr>childNodes :=
               [ElementNode (lit ''plaintext'') [] [TextNode (lit ''abc</plaintext>'')]]\<rparr>,
             mathNode := Some ((createElement (lit ''img''))\<lparr>childNodes := [TextNode (lit ''abc'')]\<rparr>)\<rparr>)"
    by (simp add: pass block_plaintext_def set_data_def window_blank_typesetter_def
        blank_mathjax_def demo_parser_def demo_defs lit_def)
  have merged: "renderSVG demo_browser window_blank_typesetter typed_block =
      Inr (typed_block\<lparr>u_element := demo_view\<lparr>childNodes := [TextNode (lit ''x^2'')]\<rparr>,
             mathNode := Some ((createElement (lit ''img''))\<lparr>childNodes := [TextNode (lit ''x^{2}'')]\<rparr>)\<rparr>)"
    by (simp add: pass typed_block_def window_blank_typesetter_def
        blank_mathjax_def demo_parser_def demo_defs lit_def)
  have texts: "textContent (u_element block_plaintext) = lit ''abc''"
    "textContent (demo_view\<lparr>childNodes :=
       [ElementNode (lit ''plaintext'') [] [TextNode (lit ''abc</plaintext>'')]]\<rparr>) =
       lit ''abc</plaintext>''"
    "childNodes (u_element typed_block) = [TextNode (lit ''x^''), TextNode (lit ''2'')]"
    by (simp_all add: view textContent_def typed_block_def)
  from blank view absent rebuilt merged texts show ?thesis
    by simp
qed

text \<open>
  Claim C3, as the code has it. Without the parser's handle, a render pass on a block whose
  text is \<open>x^2\<close> and whose container displays that text logs the missing parser and hands
  the transform node to the typesetter as it found it. No exception comes of the missing
  parser: the pass returns whenever the calls of the typesetter return. It leaves the
  container displaying the literal text \<open>x^2\<close>, and no graphic, when the typesetter's handle
  is absent too, and also when the typeset result holds no \<open>svg\<close> element and the browser
  reads the markup of the text \<open>x^2\<close> back as that text.
\<close>

theorem renderSVG_without_parser:
  assumes "math w = None"
    and "data_text (u_data this) = JStr (lit ''x^2'')"
    and "childNodes (u_element this) = [TextNode (lit ''x^2'')]"
  shows "(typesetter_returns br w (render_node this) \<longrightarrow>
            (\<exists>this'. renderSVG br w this = Inr this' \<and>
               lit ''not initiated mathjs'' \<in> set (console this'))) \<and>
         (MathJax w = None \<longrightarrow>
            (\<exists>this'. renderSVG br w this = Inr this' \<and>
               childNodes (u_element this') = [TextNode (lit ''x^2'')] \<and>
               \<not> ifSVGRendered this')) \<and>
         (no_graphic br w (render_node this) \<and>
          parse_fragment br (localName (u_element this)) (serialize br [TextNode (lit ''x^2'')]) =
            [TextNode (lit ''x^2'')] \<longrightarrow>
            (\<exists>this'. renderSVG br w this = Inr this' \<and>
               childNodes (u_element this') = [TextNode (lit ''x^2'')] \<and>
               \<not> ifSVGRendered this'))"
proof -
  let ?this4 = "snd (before_typesetting br w this)"
  have pass: "renderSVG br w this = textToSVG br w (render_node this) ?this4"
    by (simp add: renderSVG_eq before_typesetting_without_parser [OF assms(1)])
  have logged: "console ?this4 = console this @ [lit ''not initiated mathjs'']"
    by (rule before_typesetting_without_parser [OF assms(1)])
  have shown: "childNodes (u_element ?this4) = [TextNode (lit ''x^2'')]"
    by (simp add: before_typesetting_frame assms(3))
  have returns: "\<exists>this'. renderSVG br w this = Inr this' \<and>
      lit ''not initiated mathjs'' \<in> set (console this')"
    if "typesetter_returns br w (render_node this)"
    using that logged
    by (auto simp: pass typesetter_returns_def textToSVG_def split: option.splits sum.splits)
  have absent: "\<exists>this'. renderSVG br w this = Inr this' \<and>
      childNodes (u_element this') = [TextNode (lit ''x^2'')] \<and> \<not> ifSVGRendered this'"
    if "MathJax w = None"
    using shown by (simp add: pass textToSVG_without_typesetter [OF that] ifSVGRendered_def
        getElementsByTagName_def)
  have blank: "\<exists>this'. renderSVG br w this = Inr this' \<and>
      childNodes (u_element this') = [TextNode (lit ''x^2'')] \<and> \<not> ifSVGRendered this'"
    if none: "no_graphic br w (render_node this)"
      and reads: "parse_fragment br (localName (u_element this)) (serialize br [TextNode (lit ''x^2'')]) =
        [TextNode (lit ''x^2'')]"
  proof (cases "MathJax w = None")
    case True
    then show ?thesis by (rule absent)
  next
    case False
    have name: "localName (u_element ?this4) = localName (u_element this)"
      by (simp add: before_typesetting_frame)
    show ?thesis
      using shown reads
      by (simp add: pass textToSVG_without_svg [OF none False] name ifSVGRendered_def
          getElementsByTagName_def)
  qed
  from returns absent blank show ?thesis by blast
qed

theorem renderSVG_without_parser_witness:
  "math window_without_parser = None \<and> math window_without_libraries = None \<and>
   math window_without_graphic = None \<and>
   data_text (u_data block_x2) = JStr (lit ''x^2'') \<and>
   childNodes (u_element block_x2) = [TextNode (lit ''x^2'')] \<and>
   typesetter_returns demo_browser window_without_parser (render_node block_x2) \<and>
   (\<exists>this'. renderSVG demo_browser window_without_parser block_x2 = Inr this' \<and>
      lit ''not initiated mathjs'' \<in> set (console this')) \<and>
   MathJax window_without_libraries = None \<and>
   (\<exists>this'. renderSVG demo_browser window_without_libraries block_x2 = Inr this' \<and>
      childNodes (u_element this') = [TextNode (lit ''x^2'')] \<and>
      \<not> ifSVGRendered this') \<and>
   no_graphic demo_browser window_without_graphic (render_node block_x2) \<and>
   demo_parse (lit ''div'') (demo_serialize [TextNode (lit ''x^2'')]) = [TextNode (lit ''x^2'')] \<and>
   (\<exists>this'. renderSVG demo_browser window_without_graphic block_x2 = Inr this' \<and>
      childNodes (u_element this') = [TextNode (lit ''x^2'')] \<and>
      \<not> ifSVGRendered this')"
proof -
  have absent: "math window_without_parser = None" "math window_without_libraries = None"
    "math window_without_graphic = None" "MathJax window_without_libraries = None"
    by (simp_all add: window_without_parser_def window_without_libraries_def
        window_without_graphic_def)
  have stored: "data_text (u_data block_x2) = JStr (lit ''x^2'')"
    by (simp add: block_x2_def set_data_u_data)
  have shown: "childNodes (u_element block_x2) = [TextNode (lit ''x^2'')]"
    by (simp add: block_x2_def set_data_u_element demo_defs lit_def)
  have returns: "typesetter_returns demo_browser window_without_parser (render_node block_x2)"
    by (simp add: typesetter_returns_def window_without_parser_def demo_mathjax_def)
  have none: "no_graphic demo_browser window_without_graphic (render_node block_x2)"
    by (simp add: no_graphic_def window_without_graphic_def blank_mathjax_def
        getElementsByTagName_def)
  have reparse: "demo_parse (lit ''div'') (demo_serialize [TextNode (lit ''x^2'')]) =
      [TextNode (lit ''x^2'')]"
    by (simp add: demo_defs lit_def)
  have reads: "parse_fragment demo_browser (localName (u_element block_x2))
      (serialize demo_browser [TextNode (lit ''x^2'')]) = [TextNode (lit ''x^2'')]"
    using reparse
    by (simp add: block_x2_def set_data_u_element) (simp add: demo_browser_def demo_view_def demo_block_def)
  show ?thesis
    using absent stored shown returns none reparse reads
      renderSVG_without_parser [OF absent(1) stored shown, of demo_browser]
      renderSVG_without_parser [OF absent(2) stored shown, of demo_browser]
      renderSVG_without_parser [OF absent(3) stored shown, of demo_browser]
    by simp
qed

text \<open>
  The claim as the specification states it fails when the typesetter is present: the
  block constructed with \<open>{text: "x^2"}\<close> displays the text \<open>x^2\<close>; a render pass without
  the parser hands the new, empty transform node to the typesetter, and the container then
  displays the graphic the typesetter returned.
\<close>

theorem renderSVG_without_parser_counterexample:
  "math window_without_parser = None \<and>
   constructor demo_browser (Some \<lparr>data_text = JStr (lit ''x^2'')\<rparr>) demo_config demo_api =
     Inr block_x2 \<and>
   u_data block_x2 = \<lparr>data_text = JStr (lit ''x^2'')\<rparr> \<and>
   childNodes (u_element block_x2) = [TextNode (lit ''x^2'')] \<and>
   renderSVG demo_browser window_without_parser block_x2 =
     Inr (block_x2\<lparr>u_element := demo_view\<lparr>childNodes := [ElementNode (lit ''svg'') [] []]\<rparr>,
            mathNode := Some (createElement (lit ''img'')),
            console := [lit ''not initiated mathjs'']\<rparr>) \<and>
   ifSVGRendered (block_x2\<lparr>u_element := demo_view\<lparr>childNodes := [ElementNode (lit ''svg'') [] []]\<rparr>,
            mathNode := Some (createElement (lit ''img'')),
            console := [lit ''not initiated mathjs'']\<rparr>)"
proof -
  have built: "constructor demo_browser (Some \<lparr>data_text = JStr (lit ''x^2'')\<rparr>) demo_config demo_api =
      Inr block_x2"
    by (simp add: constructor_demo block_x2_def)
  have rest: "math window_without_parser = None \<and>
      u_data block_x2 = \<lparr>data_text = JStr (lit ''x^2'')\<rparr> \<and>
      childNodes (u_element block_x2) = [TextNode (lit ''x^2'')] \<and>
      renderSVG demo_browser window_without_parser block_x2 =
        Inr (block_x2\<lparr>u_element := demo_view\<lparr>childNodes := [ElementNode (lit ''svg'') [] []]\<rparr>,
               mathNode := Some (createElement (lit ''img'')),
               console := [lit ''not initiated mathjs'']\<rparr>) \<and>
      ifSVGRendered (block_x2\<lparr>u_element := demo_view\<lparr>childNodes := [ElementNode (lit ''svg'') [] []]\<rparr>,
               mathNode := Some (createElement (lit ''img'')),
               console := [lit ''not initiated mathjs'']\<rparr>)"
    by (simp add: block_x2_def set_data_def renderSVG_def getTexSyntax_def
        textToSVG_def ifSVGRendered_def getElementsByTagName_def get_data_def js_or_def
        set_innerHTML_def get_innerHTML_def node_outerHTML_def textContent_def createElement_def
        Let_def window_without_parser_def demo_mathjax_def demo_defs lit_def)
  from built rest show ?thesis by simp
qed

text \<open>
  Claim C8, as the code has it. When the parser raises on the text of a render pass, the
  exception is caught and the text itself is assigned to the transform node as the
  intermediate markup; nothing is logged, and the exception does not leave the pass, which
  goes on to the typesetting step with the record and the node so updated.
\<close>

theorem renderSVG_parse_failure_uses_text:
  assumes "math w = Some parser"
    and "parser (render_text br this) = Inl e"
  shows "renderSVG br w this =
           textToSVG br w
             (set_innerHTML br (innerHTML_string (render_text br this)) (render_node this))
             (this\<lparr>u_data := (u_data this)\<lparr>data_text := render_text br this\<rparr>,
                   mathNode := Some (set_innerHTML br (innerHTML_string (render_text br this))
                                      (render_node this))\<rparr>) \<and>
         console (snd (before_typesetting br w this)) = console this"
  using assms
  by (simp add: renderSVG_eq before_typesetting_def getTexSyntax_def get_data_def)

theorem renderSVG_parse_failure_uses_text_witness:
  "math demo_window = Some demo_parser \<and>
   demo_parser (render_text demo_browser block_2plus) = Inl (Thrown (lit ''SyntaxError'')) \<and>
   render_text demo_browser block_2plus = JStr (lit ''2+'') \<and>
   renderSVG demo_browser demo_window block_2plus =
     textToSVG demo_browser demo_window
       ((createElement (lit ''img''))\<lparr>childNodes := [TextNode (lit ''2+'')]\<rparr>)
       (block_2plus\<lparr>u_data := \<lparr>data_text = JStr (lit ''2+'')\<rparr>,
          mathNode :=
            Some ((createElement (lit ''img''))\<lparr>childNodes := [TextNode (lit ''2+'')]\<rparr>)\<rparr>)"
proof -
  have present: "math demo_window = Some demo_parser"
    by (simp add: demo_window_def)
  have current: "render_text demo_browser block_2plus = JStr (lit ''2+'')"
    by (simp add: render_text_def block_2plus_def set_data_u_data set_data_u_element js_or_def
        textContent_def demo_defs lit_def)
  have raised: "demo_parser (render_text demo_browser block_2plus) = Inl (Thrown (lit ''SyntaxError''))"
    by (simp add: current) (simp add: demo_parser_def lit_def)
  have stored: "u_data block_2plus = \<lparr>data_text = JStr (lit ''2+'')\<rparr>"
    by (simp add: block_2plus_def set_data_u_data)
  have node: "set_innerHTML demo_browser (lit ''2+'') (render_node block_2plus) =
      (createElement (lit ''img''))\<lparr>childNodes := [TextNode (lit ''2+'')]\<rparr>"
    by (simp add: set_innerHTML_def render_node_def block_2plus_def set_data_other
        createElement_def demo_defs lit_def)
  show ?thesis
    using present raised current renderSVG_parse_failure_uses_text [OF present raised]
    by (simp add: node stored)
qed

text \<open>
  The claim as the specification states it fails in that the failure is not logged: the
  parser rejects \<open>2+\<close>, the pass renders the text as it is, and the console is as empty
  after the pass as before.
\<close>

theorem renderSVG_parse_failure_counterexample:
  "math demo_window = Some demo_parser \<and>
   demo_parser (JStr (lit ''2+'')) = Inl (Thrown (lit ''SyntaxError'')) \<and>
   u_data block_2plus = \<lparr>data_text = JStr (lit ''2+'')\<rparr> \<and>
   console block_2plus = [] \<and>
   renderSVG demo_browser demo_window block_2plus =
     Inr (block_2plus\<lparr>u_element := demo_view\<lparr>childNodes := [ElementNode (lit ''svg'') [] []]\<rparr>,
            mathNode := Some ((createElement (lit ''img''))\<lparr>childNodes := [TextNode (lit ''2+'')]\<rparr>)\<rparr>) \<and>
   console (block_2plus\<lparr>u_element := demo_view\<lparr>childNodes := [ElementNode (lit ''svg'') [] []]\<rparr>,
            mathNode := Some ((createElement (lit ''img''))\<lparr>childNodes := [TextNode (lit ''2+'')]\<rparr>)\<rparr>) = []"
  by (simp add: block_2plus_def set_data_def renderSVG_def getTexSyntax_def
      textToSVG_def getElementsByTagName_def get_data_def js_or_def
      set_innerHTML_def get_innerHTML_def node_outerHTML_def textContent_def createElement_def
      Let_def demo_window_def demo_parser_def demo_mathjax_def demo_defs lit_def)

end
